theory Spec2Isabelle
  imports Complex_Main "HOL-Library.AList" "HOL-Library.List_Lexorder" "HOL-Library.Char_ord"
begin

section \<open>Clocks and timestamp texts\<close>

text \<open>
  The server reads two clocks: \<^verbatim>\<open>time.time()\<close>, seconds since the epoch as a float, and
  \<^verbatim>\<open>datetime.now()\<close>, the naive local wall clock with microseconds. Both are modelled
  as a \<open>real\<close> number of seconds which the caller passes in (\<open>current_time\<close> for the first,
  \<open>now\<close> for the second); one call of a modelled function reads each clock once.

  A TEXT column that holds a time is modelled by what \<^verbatim>\<open>datetime.strptime(text,
  "%Y-%m-%d %H:%M:%S")\<close> makes of it: \<open>Stamp t\<close> is a text that parses, to the local second
  \<open>t\<close>; \<open>Other s\<close> is the text \<open>s\<close>, on which strptime raises ValueError.
  A date text \<^verbatim>\<open>YYYY-MM-DD\<close> is modelled by its day number.
\<close>

datatype text_time = Stamp int | Other string

fun strptime :: "text_time \<Rightarrow> int option" where
  "strptime (Stamp t) = Some t"
| "strptime (Other s) = None"

definition get_current_timestamp :: "real \<Rightarrow> text_time" where
  "get_current_timestamp now = Stamp \<lfloor>now\<rfloor>"

definition today_of :: "real \<Rightarrow> int" where
  "today_of now = \<lfloor>now\<rfloor> div 86400"

text \<open>SQLite's \<^verbatim>\<open>DATE(text)\<close>: the day of a timestamp text, NULL when it is none.\<close>

fun sql_DATE :: "text_time \<Rightarrow> int option" where
  "sql_DATE (Stamp t) = Some (t div 86400)"
| "sql_DATE (Other s) = None"

text \<open>Python's \<^verbatim>\<open>int(x)\<close> on a float truncates toward zero.\<close>

definition py_int_of_float :: "real \<Rightarrow> int" where
  "py_int_of_float x = (if 0 \<le> x then \<lfloor>x\<rfloor> else \<lceil>x\<rceil>)"

text \<open>Python's \<^verbatim>\<open>a or b\<close> on an optional integer: \<^verbatim>\<open>None\<close> and \<^verbatim>\<open>0\<close> are falsy.\<close>

fun py_or :: "int option \<Rightarrow> int \<Rightarrow> int" where
  "py_or None d = d"
| "py_or (Some v) d = (if v = 0 then d else v)"

text \<open>Truthiness of an optional text: \<^verbatim>\<open>None\<close> and the empty text are falsy.\<close>

fun truthy :: "string option \<Rightarrow> bool" where
  "truthy None = False"
| "truthy (Some s) = (s \<noteq> [])"

fun truthy_time :: "text_time option \<Rightarrow> bool" where
  "truthy_time None = False"
| "truthy_time (Some (Stamp t)) = True"
| "truthy_time (Some (Other s)) = (s \<noteq> [])"

section \<open>constants.py\<close>

definition MAX_HANDSHAKE_AGE :: int where
  "MAX_HANDSHAKE_AGE = 180"

section \<open>Python texts and numbers\<close>

definition digit_char :: "nat \<Rightarrow> char" where
  "digit_char d = char_of (48 + d)"

function str_nat :: "nat \<Rightarrow> string" where
  "str_nat n = (if n < 10 then [digit_char n] else str_nat (n div 10) @ [digit_char (n mod 10)])"
  by pat_completeness auto
termination
  by (relation "measure (\<lambda>n. n)") auto

declare str_nat.simps [simp del]

text \<open>\<^verbatim>\<open>str(n)\<close> and \<^verbatim>\<open>f"{n}"\<close> of a Python integer.\<close>

definition str_int :: "int \<Rightarrow> string" where
  "str_int i = (if i < 0 then CHR ''-'' # str_nat (nat (- i)) else str_nat (nat i))"

definition is_digit :: "char \<Rightarrow> bool" where
  "is_digit c = (CHR ''0'' \<le> c \<and> c \<le> CHR ''9'')"

definition is_alpha :: "char \<Rightarrow> bool" where
  "is_alpha c = ((CHR ''a'' \<le> c \<and> c \<le> CHR ''z'') \<or> (CHR ''A'' \<le> c \<and> c \<le> CHR ''Z''))"

text \<open>
  \<^verbatim>\<open>int(text)\<close> on a text of decimal digits; \<open>None\<close> is its ValueError. (Python also
  accepts a sign, surrounding blanks and underscores between digits; the texts read here
  are last octets that the allocator itself has written, which are digits only.)
\<close>

definition py_int :: "string \<Rightarrow> int option" where
  "py_int t = (if t \<noteq> [] \<and> list_all is_digit t
               then Some (int (foldl (\<lambda>a c. 10 * a + (of_char c - 48)) 0 t)) else None)"

text \<open>\<^verbatim>\<open>text.split(sep)\<close> for a one-character separator.\<close>

fun split_on :: "char \<Rightarrow> string \<Rightarrow> string list" where
  "split_on sep [] = [[]]"
| "split_on sep (c # cs) =
     (if c = sep then [] # split_on sep cs
      else (case split_on sep cs of [] \<Rightarrow> [[c]] | p # ps \<Rightarrow> (c # p) # ps))"

section \<open>Exceptions and JSON values\<close>

text \<open>An exception is its class and its message; \<open>error_str\<close> is \<^verbatim>\<open>str(e)\<close>.\<close>

datatype error = ValueError string | RuntimeError string | IndexError string
  | IntegrityError string | TypeError string | ProgrammingError string

fun error_str :: "error \<Rightarrow> string" where
  "error_str (ValueError m) = m"
| "error_str (RuntimeError m) = m"
| "error_str (IndexError m) = m"
| "error_str (IntegrityError m) = m"
| "error_str (TypeError m) = m"
| "error_str (ProgrammingError m) = m"

text \<open>
  A value of a request body, as \<^verbatim>\<open>json.loads\<close> returns it: \<^verbatim>\<open>None\<close>, a bool, an int, a
  float, a text, a list or a dict. A float is a real number here (a NaN or an infinity
  behaves in this program as any float that is not zero). \<open>py_bool\<close> is Python's
  truthiness and \<open>type_name\<close> is \<^verbatim>\<open>type(v).__name__\<close>.
\<close>

datatype json = JNull | JBool bool | JInt int | JFloat real | JText string
  | JArray "json list" | JObject "(string \<times> json) list"

fun py_bool :: "json \<Rightarrow> bool" where
  "py_bool JNull = False"
| "py_bool (JBool b) = b"
| "py_bool (JInt i) = (i \<noteq> 0)"
| "py_bool (JFloat x) = (x \<noteq> 0)"
| "py_bool (JText t) = (t \<noteq> [])"
| "py_bool (JArray xs) = (xs \<noteq> [])"
| "py_bool (JObject kvs) = (kvs \<noteq> [])"

fun type_name :: "json \<Rightarrow> string" where
  "type_name JNull = ''NoneType''"
| "type_name (JBool b) = ''bool''"
| "type_name (JInt i) = ''int''"
| "type_name (JFloat x) = ''float''"
| "type_name (JText t) = ''str''"
| "type_name (JArray xs) = ''list''"
| "type_name (JObject kvs) = ''dict''"


fun json_of_text :: "string option \<Rightarrow> json" where
  "json_of_text None = JNull"
| "json_of_text (Some t) = JText t"

section \<open>utils/helpers.py\<close>

text \<open>
  \<open>validate_pubkey\<close> calls \<^verbatim>\<open>base64.b64decode(pubkey + '==')\<close> of the standard library
  and accepts the key when the call does not raise. Whether it raises is the parameter
  \<open>b64decode_ok\<close>, which every function that resolves a key passes down.
\<close>

definition validate_pubkey :: "(string \<Rightarrow> bool) \<Rightarrow> string \<Rightarrow> bool" where
  "validate_pubkey b64decode_ok pubkey =
     (if pubkey = [] \<or> length pubkey \<noteq> 44 then False else b64decode_ok (pubkey @ ''==''))"

text \<open>
  \<open>validate_email\<close> matches a text against
  \<^verbatim>\<open>^[a-zA-Z0-9._%+-]+@[a-zA-Z0-9.-]+\.[a-zA-Z]{2,}$\<close>. The first class has no \<^verbatim>\<open>@\<close>,
  so the local part ends at the first \<^verbatim>\<open>@\<close>; the last class has no dot, so the final
  label starts after the last dot; \<^verbatim>\<open>$\<close> also matches before one final newline.
\<close>

definition local_char :: "char \<Rightarrow> bool" where
  "local_char c = (is_alpha c \<or> is_digit c \<or> c \<in> set ''._%+-'')"

definition domain_char :: "char \<Rightarrow> bool" where
  "domain_char c = (is_alpha c \<or> is_digit c \<or> c \<in> set ''.-'')"

definition email_match :: "string \<Rightarrow> bool" where
  "email_match email =
     (let body = (if email \<noteq> [] \<and> last email = CHR 0x0A then butlast email else email);
          local_part = takeWhile (\<lambda>c. c \<noteq> CHR ''@'') body;
          rest = dropWhile (\<lambda>c. c \<noteq> CHR ''@'') body;
          host = tl rest;
          label = rev (takeWhile (\<lambda>c. c \<noteq> CHR ''.'') (rev host));
          upto_dot = rev (dropWhile (\<lambda>c. c \<noteq> CHR ''.'') (rev host))
      in local_part \<noteq> [] \<and> list_all local_char local_part \<and> rest \<noteq> []
         \<and> upto_dot \<noteq> [] \<and> butlast upto_dot \<noteq> [] \<and> list_all domain_char (butlast upto_dot)
         \<and> 2 \<le> length label \<and> list_all is_alpha label)"

text \<open>
  \<open>validate_email\<close> itself: a falsy value passes; on a text the answer is the match; on
  any other value \<^verbatim>\<open>re.match\<close> raises TypeError (the message is that of CPython 3.11
  and later; earlier versions stop after "object").
\<close>

definition validate_email :: "json \<Rightarrow> error + bool" where
  "validate_email email =
     (if \<not> py_bool email then Inr True
      else (case email of
              JText e \<Rightarrow> Inr (email_match e)
            | _ \<Rightarrow> Inl (TypeError (''expected string or bytes-like object, got ''
                                    @ [CHR 0x27] @ type_name email @ [CHR 0x27]))))"

section \<open>db/database.py: the schema\<close>

text \<open>
  Each table is the list of its rows in insertion order. Columns keep their names, with
  a prefix where two tables share one (and \<open>note\<close> is \<open>user_note\<close>). Numeric columns
  hold integers; \<open>login_ip\<close> of \<open>users\<close> is never written and is left out, as are the
  surrogate ids of the two statistics tables, which nothing reads. \<open>users_seq\<close> and
  \<open>events_seq\<close> are the AUTOINCREMENT counters: the last id handed out. A statement
  succeeds unless a constraint of the schema rejects it; failures of the database itself
  are not modelled.

  The schema declares \<^verbatim>\<open>ON DELETE CASCADE\<close> from \<open>events\<close> and \<open>traffic_stats\<close> to
  \<open>users\<close>. SQLite enforces foreign keys only on a connection that has issued
  \<^verbatim>\<open>PRAGMA foreign_keys = ON\<close>, which \<open>execute_db\<close> never does, or when the library was
  built with enforcement as its default. Whether the connection enforces them is the
  parameter \<open>foreign_keys\<close> of the one DELETE statement: with \<open>False\<close> the event and
  traffic rows of a deleted user stay. (With enforcement every stored event and traffic
  row has its user, and the INSERTs of the model name a user that is stored.)
\<close>

datatype event_status = ONLINE | OFFLINE

record user =
  uid :: int
  peer_pubkey :: string
  client_ip :: "string option"
  nickname :: "string option"
  mail :: "string option"
  phone :: "string option"
  bandwidth_limit :: int
  data_limit :: int
  expiry_date :: "text_time option"
  status :: int
  enabled :: int
  total_rx :: int
  total_tx :: int
  last_login :: "text_time option"
  user_note :: "string option"
  wg_config :: "string option"
  created_at :: text_time
  updated_at :: text_time

record event =
  eid :: int
  user_id :: int
  start_time :: text_time
  end_time :: "text_time option"
  last_update :: text_time
  session_rx :: int
  session_tx :: int
  login_ip :: "string option"
  endpoint_info :: "string option"
  ev_status :: event_status
  duration_seconds :: int

record traffic_stat =
  ts_user_id :: int
  ts_date :: int
  daily_rx :: int
  daily_tx :: int
  session_count :: int
  ts_created_at :: text_time
  ts_updated_at :: text_time

record system_stat =
  ss_date :: int
  total_users :: int
  active_users :: "int option"
  ss_total_rx :: "int option"
  ss_total_tx :: "int option"
  peak_concurrent :: int
  avg_session_duration :: int
  ss_created_at :: text_time
  ss_updated_at :: text_time

text \<open>An entry of \<open>user_sessions\<close> (constants.py) and a peer of the adapter's snapshot.\<close>

record session =
  event_id :: int
  start_rx :: int
  start_tx :: int
  last_handshake :: int
  sess_user_id :: int
  sess_nickname :: string

record peer_info =
  rx :: int
  tx :: int
  handshake :: int
  endpoint :: "string option"

text \<open>
  The adapter's \<open>add_wg_peer\<close> and \<open>remove_wg_peer\<close> only log and return True; the
  model records each call in \<open>wg_calls\<close>, so that "the adapter is not called" can be
  stated. \<open>user_sessions\<close> is the live map, a Python dict: an association list in
  insertion order. \<open>last_stats_update\<close> is the function attribute of
  \<open>monitor_wireguard\<close>, \<open>None\<close> while it is not set.
\<close>

datatype wg_call = AddPeer string string | RemovePeer string

record state =
  users :: "user list"
  events :: "event list"
  traffic_stats :: "traffic_stat list"
  system_stats :: "system_stat list"
  users_seq :: int
  events_seq :: int
  user_sessions :: "(string \<times> session) list"
  wg_calls :: "wg_call list"
  last_stats_update :: "real option"

definition init_state :: state where
  "init_state = \<lparr>users = [], events = [], traffic_stats = [], system_stats = [],
     users_seq = 0, events_seq = 0, user_sessions = [], wg_calls = [],
     last_stats_update = None\<rparr>"

definition update_user_status :: "real \<Rightarrow> int \<Rightarrow> int \<Rightarrow> state \<Rightarrow> state" where
  "update_user_status now user_id' status' s =
     s\<lparr>users := map (\<lambda>u. if uid u = user_id'
                             then u\<lparr>status := status', updated_at := get_current_timestamp now\<rparr>
                             else u) (users s)\<rparr>"

section \<open>statistics/stats\_manager.py\<close>

definition update_user_traffic_stats :: "real \<Rightarrow> int \<Rightarrow> int \<Rightarrow> int \<Rightarrow> state \<Rightarrow> state" where
  "update_user_traffic_stats now user_id' session_rx' session_tx' s =
     s\<lparr>users := map (\<lambda>u. if uid u = user_id'
                             then u\<lparr>total_rx := total_rx u + session_rx',
                                    total_tx := total_tx u + session_tx',
                                    last_login := Some (get_current_timestamp now),
                                    updated_at := get_current_timestamp now\<rparr>
                             else u) (users s)\<rparr>"

text \<open>
  \<^verbatim>\<open>INSERT OR REPLACE\<close> on the key (user\_id, date): the row of that key, if any, is
  deleted and the new row is appended; each COALESCE reads the old row before that.
\<close>

definition update_daily_traffic_stats ::
  "real \<Rightarrow> int \<Rightarrow> int \<Rightarrow> int \<Rightarrow> int \<Rightarrow> state \<Rightarrow> state" where
  "update_daily_traffic_stats now user_id' rx' tx' session_count' s =
     (let today = today_of now;
          old = find (\<lambda>r. ts_user_id r = user_id' \<and> ts_date r = today) (traffic_stats s);
          row = \<lparr>ts_user_id = user_id', ts_date = today,
                 daily_rx = (case old of None \<Rightarrow> 0 | Some r \<Rightarrow> daily_rx r) + rx',
                 daily_tx = (case old of None \<Rightarrow> 0 | Some r \<Rightarrow> daily_tx r) + tx',
                 session_count = (case old of None \<Rightarrow> 0 | Some r \<Rightarrow> session_count r)
                                   + session_count',
                 ts_created_at = (case old of None \<Rightarrow> get_current_timestamp now
                                  | Some r \<Rightarrow> ts_created_at r),
                 ts_updated_at = get_current_timestamp now\<rparr>
      in s\<lparr>traffic_stats :=
              filter (\<lambda>r. \<not> (ts_user_id r = user_id' \<and> ts_date r = today)) (traffic_stats s)
              @ [row]\<rparr>)"

text \<open>
  \<open>update_system_stats\<close>: COUNT over the enabled users, the SUMs (NULL over no row), the
  average duration of today's events with a positive duration (\<^verbatim>\<open>int(avg or 0)\<close>: the
  average is positive, so truncation is the integer quotient), and the peak as the
  maximum of today's stored peak and the size of the live map.
\<close>

definition update_system_stats :: "real \<Rightarrow> state \<Rightarrow> state" where
  "update_system_stats now s =
     (let today = today_of now;
          en = filter (\<lambda>u. enabled u = 1) (users s);
          durs = map duration_seconds
                   (filter (\<lambda>e. sql_DATE (start_time e) = Some today \<and> 0 < duration_seconds e)
                      (events s));
          avg_duration_seconds = (if durs = [] then 0 else sum_list durs div int (length durs));
          current_online = int (length (user_sessions s));
          old = find (\<lambda>r. ss_date r = today) (system_stats s);
          row = \<lparr>ss_date = today,
                 total_users = int (length en),
                 active_users = (if en = [] then None
                                 else Some (sum_list (map (\<lambda>u. if status u = 1 then 1 else 0) en))),
                 ss_total_rx = (if en = [] then None else Some (sum_list (map total_rx en))),
                 ss_total_tx = (if en = [] then None else Some (sum_list (map total_tx en))),
                 peak_concurrent =
                   max (case old of None \<Rightarrow> 0 | Some r \<Rightarrow> peak_concurrent r) current_online,
                 avg_session_duration = avg_duration_seconds,
                 ss_created_at = (case old of None \<Rightarrow> get_current_timestamp now
                                  | Some r \<Rightarrow> ss_created_at r),
                 ss_updated_at = get_current_timestamp now\<rparr>
      in s\<lparr>system_stats := filter (\<lambda>r. ss_date r \<noteq> today) (system_stats s) @ [row]\<rparr>)"

section \<open>user\_management/user\_manager.py: resolving a key\<close>

text \<open>\<^verbatim>\<open>user["nickname"] or f"User_{user['id']}"\<close>.\<close>

definition nickname_or_default :: "user \<Rightarrow> string" where
  "nickname_or_default u =
     (case nickname u of None \<Rightarrow> ''User_'' @ str_int (uid u)
      | Some n \<Rightarrow> if n = [] then ''User_'' @ str_int (uid u) else n)"

definition new_user_row :: "real \<Rightarrow> int \<Rightarrow> string \<Rightarrow> user" where
  "new_user_row now user_id' pubkey =
     \<lparr>uid = user_id', peer_pubkey = pubkey, client_ip = None, nickname = None, mail = None,
      phone = None, bandwidth_limit = 0, data_limit = 0, expiry_date = None, status = 0,
      enabled = 1, total_rx = 0, total_tx = 0, last_login = None, user_note = None,
      wg_config = None, created_at = get_current_timestamp now,
      updated_at = get_current_timestamp now\<rparr>"

text \<open>
  The result is the triple (id, nickname, enabled) with the state after the call, or the
  ValueError of a key that fails validation. The expiry is read only when the column is
  truthy and parses; a parse failure is passed over (\<^verbatim>\<open>except ValueError: pass\<close>).
\<close>

definition get_or_create_user ::
  "(string \<Rightarrow> bool) \<Rightarrow> real \<Rightarrow> string \<Rightarrow> state \<Rightarrow> error + ((int \<times> string \<times> int) \<times> state)" where
  "get_or_create_user b64decode_ok now pubkey s =
     (if \<not> validate_pubkey b64decode_ok pubkey
      then Inl (ValueError ''Invalid public key format'')
      else case find (\<lambda>u. peer_pubkey u = pubkey) (users s) of
        Some user \<Rightarrow>
          (case (if truthy_time (expiry_date user)
                 then Option.bind (expiry_date user) strptime else None) of
             Some expiry \<Rightarrow>
               if of_int expiry < now
               then Inr ((uid user, nickname_or_default user, 0),
                      s\<lparr>users := map (\<lambda>u. if uid u = uid user
                                              then u\<lparr>enabled := 0,
                                                     updated_at := get_current_timestamp now\<rparr>
                                              else u) (users s)\<rparr>)
               else Inr ((uid user, nickname_or_default user, enabled user), s)
           | None \<Rightarrow> Inr ((uid user, nickname_or_default user, enabled user), s))
      | None \<Rightarrow>
          (let user_id' = users_seq s + 1
           in Inr ((user_id', ''User_'' @ str_int user_id', 1),
                s\<lparr>users := users s @ [new_user_row now user_id' pubkey],
                  users_seq := user_id'\<rparr>)))"

section \<open>session\_monitor/session\_handler.py\<close>

text \<open>The freshness predicate; \<open>current_time\<close> is its reading of \<^verbatim>\<open>time.time()\<close>.\<close>

definition is_peer_online :: "real \<Rightarrow> int \<Rightarrow> int option \<Rightarrow> bool" where
  "is_peer_online current_time handshake_time max_handshake_age =
     (let max_age = (case max_handshake_age of None \<Rightarrow> MAX_HANDSHAKE_AGE | Some a \<Rightarrow> a)
      in if handshake_time = 0 then False
         else current_time - of_int handshake_time \<le> of_int max_age)"

definition create_new_session ::
  "real \<Rightarrow> int \<Rightarrow> int \<Rightarrow> int \<Rightarrow> string option \<Rightarrow> string option \<Rightarrow> state \<Rightarrow> int \<times> state" where
  "create_new_session now user_id' start_rx' start_tx' login_ip' endpoint_info' s =
     (let event_id' = events_seq s + 1
      in (event_id',
          s\<lparr>events := events s @
                 [\<lparr>eid = event_id', user_id = user_id',
                   start_time = get_current_timestamp now, end_time = None,
                   last_update = get_current_timestamp now, session_rx = 0, session_tx = 0,
                   login_ip = login_ip', endpoint_info = endpoint_info', ev_status = ONLINE,
                   duration_seconds = 0\<rparr>],
            events_seq := event_id'\<rparr>))"

definition update_session_traffic :: "real \<Rightarrow> int \<Rightarrow> int \<Rightarrow> int \<Rightarrow> state \<Rightarrow> state" where
  "update_session_traffic now event_id' session_rx' session_tx' s =
     s\<lparr>events := map (\<lambda>e. if eid e = event_id'
                              then e\<lparr>last_update := get_current_timestamp now,
                                     session_rx := session_rx', session_tx := session_tx'\<rparr>
                              else e) (events s)\<rparr>"

text \<open>
  \<open>close_session\<close>: the duration is \<^verbatim>\<open>int((datetime.now() - start_time).total_seconds())\<close>,
  and 0 when the start time does not parse (the bare \<^verbatim>\<open>except\<close>); the byte counts are
  \<^verbatim>\<open>final_rx or session_info['session_rx']\<close> and its \<open>tx\<close> twin.
\<close>

definition close_session :: "real \<Rightarrow> int \<Rightarrow> int option \<Rightarrow> int option \<Rightarrow> state \<Rightarrow> state" where
  "close_session now event_id' final_rx final_tx s =
     (case find (\<lambda>e. eid e = event_id') (events s) of
        None \<Rightarrow> s
      | Some session_info \<Rightarrow>
          (let duration = (case strptime (start_time session_info) of
                             Some start \<Rightarrow> py_int_of_float (now - of_int start)
                           | None \<Rightarrow> 0);
               rx_used = py_or final_rx (session_rx session_info);
               tx_used = py_or final_tx (session_tx session_info);
               s1 = update_user_traffic_stats now (user_id session_info) rx_used tx_used s;
               s2 = update_daily_traffic_stats now (user_id session_info) rx_used tx_used 1 s1
           in s2\<lparr>events := map (\<lambda>e. if eid e = event_id'
                                       then e\<lparr>end_time := Some (get_current_timestamp now),
                                              session_rx := rx_used, session_tx := tx_used,
                                              ev_status := OFFLINE,
                                              duration_seconds := duration\<rparr>
                                       else e) (events s2)\<rparr>))"

text \<open>
  \<open>handle_peer_online\<close>. The dict entry \<open>session\<close> is mutated in place in the source:
  here the changed entry is stored back under its key.
\<close>

definition handle_peer_online ::
  "(string \<Rightarrow> bool) \<Rightarrow> real \<Rightarrow> string \<Rightarrow> peer_info \<Rightarrow> state \<Rightarrow> state" where
  "handle_peer_online b64decode_ok now pubkey peer s =
     (case get_or_create_user b64decode_ok now pubkey s of
        Inl e \<Rightarrow> s
      | Inr ((user_id', nickname', enabled'), s1) \<Rightarrow>
          if enabled' = 0 then update_user_status now user_id' 0 s1
          else (case map_of (user_sessions s1) pubkey of
            Some session \<Rightarrow>
              (let current_rx = rx peer;
                   current_tx = tx peer;
                   reset = (current_rx < start_rx session \<or> current_tx < start_tx session);
                   session1 = (if reset then session\<lparr>start_rx := current_rx, start_tx := current_tx\<rparr>
                               else session);
                   session_rx' = (if reset then 0 else current_rx - start_rx session);
                   session_tx' = (if reset then 0 else current_tx - start_tx session);
                   s2 = update_session_traffic now (event_id session) session_rx' session_tx' s1
               in s2\<lparr>user_sessions :=
                       AList.update pubkey (session1\<lparr>last_handshake := handshake peer\<rparr>)
                         (user_sessions s2)\<rparr>)
          | None \<Rightarrow>
              (case create_new_session now user_id' (rx peer) (tx peer) None (endpoint peer) s1 of
                 (event_id', s2) \<Rightarrow>
                   update_user_status now user_id' 1
                     (s2\<lparr>user_sessions :=
                           AList.update pubkey
                             \<lparr>event_id = event_id', start_rx = rx peer, start_tx = tx peer,
                              last_handshake = handshake peer, sess_user_id = user_id',
                              sess_nickname = nickname'\<rparr>
                             (user_sessions s2)\<rparr>))))"

definition handle_peer_offline :: "real \<Rightarrow> string \<Rightarrow> string \<Rightarrow> state \<Rightarrow> state" where
  "handle_peer_offline now pubkey reason s =
     (case map_of (user_sessions s) pubkey of
        None \<Rightarrow> s
      | Some session \<Rightarrow>
          (let s1 = close_session now (event_id session) None None s;
               s2 = update_user_status now (sess_user_id session) 0 s1
           in s2\<lparr>user_sessions := AList.delete pubkey (user_sessions s2)\<rparr>))"

text \<open>
  \<open>monitor_wireguard\<close>, one tick. \<open>peers\<close> is the snapshot \<open>get_wg_peers\<close> returned, a
  dict in its iteration order. The peers that disappeared are a Python set, whose
  iteration order is not fixed; the model closes them in the order of the live map.
  \<open>monitor_peers\<close> is the tick up to the heartbeat.
\<close>

fun process_peers ::
  "(string \<Rightarrow> bool) \<Rightarrow> real \<Rightarrow> real \<Rightarrow> int option \<Rightarrow> (string \<times> peer_info) list \<Rightarrow> state \<Rightarrow> state" where
  "process_peers b64decode_ok current_time now max_handshake_age [] s = s"
| "process_peers b64decode_ok current_time now max_handshake_age ((pubkey, peer) # rest) s =
     process_peers b64decode_ok current_time now max_handshake_age rest
       (if is_peer_online current_time (handshake peer) max_handshake_age
        then handle_peer_online b64decode_ok now pubkey peer s
        else if map_of (user_sessions s) pubkey \<noteq> None
             then handle_peer_offline now pubkey ''handshake_timeout'' s
             else s)"

definition monitor_peers ::
  "(string \<Rightarrow> bool) \<Rightarrow> real \<Rightarrow> real \<Rightarrow> int option \<Rightarrow> (string \<times> peer_info) list \<Rightarrow> state \<Rightarrow> state" where
  "monitor_peers b64decode_ok current_time now max_handshake_age peers s =
     (let max_age = (case max_handshake_age of None \<Rightarrow> MAX_HANDSHAKE_AGE | Some a \<Rightarrow> a);
          active_pubkeys = map fst peers;
          s1 = process_peers b64decode_ok current_time now (Some max_age) peers s;
          offline_pubkeys = filter (\<lambda>k. k \<notin> set active_pubkeys) (map fst (user_sessions s1))
      in foldl (\<lambda>st k. handle_peer_offline now k ''disappeared'' st) s1 offline_pubkeys)"

definition monitor_wireguard ::
  "(string \<Rightarrow> bool) \<Rightarrow> real \<Rightarrow> real \<Rightarrow> int option \<Rightarrow> (string \<times> peer_info) list \<Rightarrow> state \<Rightarrow> state" where
  "monitor_wireguard b64decode_ok current_time now max_handshake_age peers s =
     (let s2 = monitor_peers b64decode_ok current_time now max_handshake_age peers s;
          last = (case last_stats_update s2 of None \<Rightarrow> 0 | Some t \<Rightarrow> t);
          s3 = s2\<lparr>last_stats_update := Some last\<rparr>
      in if 300 < current_time - last
         then (update_system_stats now s3)\<lparr>last_stats_update := Some current_time\<rparr>
         else s3)"

section \<open>wireguard\_interface/wg\_commands.py\<close>

definition add_wg_peer :: "string \<Rightarrow> string \<Rightarrow> state \<Rightarrow> bool \<times> state" where
  "add_wg_peer pubkey client_ip' s = (True, s\<lparr>wg_calls := wg_calls s @ [AddPeer pubkey client_ip']\<rparr>)"

definition remove_wg_peer :: "string \<Rightarrow> state \<Rightarrow> bool \<times> state" where
  "remove_wg_peer pubkey s = (True, s\<lparr>wg_calls := wg_calls s @ [RemovePeer pubkey]\<rparr>)"

text \<open>
  \<open>get_next_available_ip\<close>: the assigned addresses are sorted as texts
  (\<^verbatim>\<open>ip_list.sort()\<close> on Python strings is the lexicographic order of the characters),
  the last one is split at the dots and its fourth part is incremented. \<open>assigned_ips\<close>
  is the result of the query, and \<open>next_ip_of\<close> is the function's body on that result.
\<close>

definition assigned_ips :: "state \<Rightarrow> string list" where
  "assigned_ips s = List.map_filter client_ip (users s)"

definition next_ip_of :: "string list \<Rightarrow> error + string" where
  "next_ip_of result =
     (if result = [] then Inr ''10.0.0.2''
      else (let ip_list = sort result;
                last_ip = last ip_list;
                parts = split_on CHR ''.'' last_ip
            in if length parts < 4 then Inl (IndexError ''list index out of range'')
               else (case py_int (parts ! 3) of
                  None \<Rightarrow> Inl (ValueError (''invalid literal for int() with base 10: ''
                                            @ [CHR 0x27] @ parts ! 3 @ [CHR 0x27]))
                | Some last_octet \<Rightarrow>
                    (let next_octet = last_octet + 1
                     in if 254 < next_octet then Inl (ValueError ''No available IP addresses'')
                        else Inr (parts ! 0 @ ''.'' @ parts ! 1 @ ''.'' @ parts ! 2 @ ''.''
                                  @ str_int next_octet)))))"

definition get_next_available_ip :: "state \<Rightarrow> error + string" where
  "get_next_available_ip s = next_ip_of (assigned_ips s)"

definition generate_wg_config :: "string option \<Rightarrow> string \<Rightarrow> string \<Rightarrow> string" where
  "generate_wg_config server_public_key client_public_key client_ip' =
     [CHR 0x0A] @ ''[Interface]'' @ [CHR 0x0A]
     @ ''PrivateKey = <CLIENT_PRIVATE_KEY>'' @ [CHR 0x0A]
     @ ''Address = '' @ client_ip' @ ''/32'' @ [CHR 0x0A]
     @ ''DNS = 8.8.8.8, 8.8.4.4'' @ [CHR 0x0A] @ [CHR 0x0A]
     @ ''[Peer]'' @ [CHR 0x0A]
     @ ''PublicKey = '' @ (case server_public_key of None \<Rightarrow> ''SERVER_PUBLIC_KEY''
                           | Some k \<Rightarrow> if k = [] then ''SERVER_PUBLIC_KEY'' else k) @ [CHR 0x0A]
     @ ''Endpoint = server.example.com:51820'' @ [CHR 0x0A]
     @ ''AllowedIPs = 0.0.0.0/0, ::/0'' @ [CHR 0x0A]
     @ ''PersistentKeepalive = 25'' @ [CHR 0x0A]"

section \<open>user\_management/user\_manager.py: administration\<close>

text \<open>
  The CHECK constraints of \<open>users\<close>, in the order of the schema; \<open>None\<close> when the row
  passes, else the IntegrityError (the message is SQLite's).
\<close>

definition check_violation :: "user \<Rightarrow> error option" where
  "check_violation u =
     (if bandwidth_limit u < 0
      then Some (IntegrityError ''CHECK constraint failed: bandwidth_limit >= 0'')
      else if data_limit u < 0
      then Some (IntegrityError ''CHECK constraint failed: data_limit >= 0'')
      else if status u \<noteq> 0 \<and> status u \<noteq> 1
      then Some (IntegrityError ''CHECK constraint failed: status IN (0, 1)'')
      else if enabled u \<noteq> 0 \<and> enabled u \<noteq> 1
      then Some (IntegrityError ''CHECK constraint failed: enabled IN (0, 1)'')
      else None)"

text \<open>
  The INSERT of \<open>create_user\<close>: the CHECKs, then the UNIQUE columns; the id is the next
  of the AUTOINCREMENT counter.
\<close>

definition insert_user :: "user \<Rightarrow> state \<Rightarrow> error + (int \<times> state)" where
  "insert_user row s =
     (case check_violation row of
        Some e \<Rightarrow> Inl e
      | None \<Rightarrow>
          if find (\<lambda>u. peer_pubkey u = peer_pubkey row) (users s) \<noteq> None
          then Inl (IntegrityError ''UNIQUE constraint failed: users.peer_pubkey'')
          else if client_ip row \<noteq> None
                  \<and> find (\<lambda>u. client_ip u = client_ip row) (users s) \<noteq> None
          then Inl (IntegrityError ''UNIQUE constraint failed: users.client_ip'')
          else (let user_id' = users_seq s + 1
                in Inr (user_id', s\<lparr>users := users s @ [row\<lparr>uid := user_id'\<rparr>],
                                     users_seq := user_id'\<rparr>)))"

text \<open>
  The INSERT binds the mail as its fourth parameter. \<^verbatim>\<open>sqlite3\<close> binds \<^verbatim>\<open>None\<close>, an int (a
  bool is one), a float and a text, and raises ProgrammingError on a list or a dict (the
  message is that of CPython 3.11 and later); the TEXT column then holds a number as its
  text. The mail that arrives here is a text or a falsy value, since a truthy value that is
  no text has raised in \<open>validate_email\<close>: so a float that arrives is zero, and SQLite
  stores it as 0.0.
\<close>

fun bind_mail :: "json \<Rightarrow> error + string option" where
  "bind_mail JNull = Inr None"
| "bind_mail (JText m) = Inr (Some m)"
| "bind_mail (JBool b) = Inr (Some (if b then ''1'' else ''0''))"
| "bind_mail (JInt i) = Inr (Some (str_int i))"
| "bind_mail (JFloat x) = Inr (Some ''0.0'')"
| "bind_mail (JArray xs) =
     Inl (ProgrammingError (''Error binding parameter 4: type '' @ [CHR 0x27] @ ''list''
                            @ [CHR 0x27] @ '' is not supported''))"
| "bind_mail (JObject kvs) =
     Inl (ProgrammingError (''Error binding parameter 4: type '' @ [CHR 0x27] @ ''dict''
                            @ [CHR 0x27] @ '' is not supported''))"

text \<open>
  \<open>create_user\<close>. The mail is the JSON value of the request; the test
  \<^verbatim>\<open>mail and not validate_email(mail)\<close> calls \<open>validate_email\<close> only on a truthy mail, and
  a TypeError it raises leaves the function as it is. Everything from the configuration
  to the INSERT stands in the \<^verbatim>\<open>try\<close> whose handler removes the peer again.
\<close>

definition create_user ::
  "(string \<Rightarrow> bool) \<Rightarrow> real \<Rightarrow> string \<Rightarrow> string option \<Rightarrow> json \<Rightarrow> string option
    \<Rightarrow> int \<Rightarrow> int \<Rightarrow> text_time option \<Rightarrow> string option \<Rightarrow> state
    \<Rightarrow> (error + (int \<times> string \<times> string)) \<times> state" where
  "create_user b64decode_ok now pubkey nickname' mail' phone' bandwidth_limit' data_limit'
       expiry_date' note' s =
     (if \<not> validate_pubkey b64decode_ok pubkey
      then (Inl (ValueError ''Invalid public key format''), s)
      else (case (if py_bool mail' then validate_email mail' else Inr True) of
        Inl e \<Rightarrow> (Inl e, s)
      | Inr mail_ok \<Rightarrow>
      if \<not> mail_ok
      then (Inl (ValueError ''Invalid email format''), s)
      else if find (\<lambda>u. peer_pubkey u = pubkey) (users s) \<noteq> None
      then (Inl (ValueError ''Public key already exists''), s)
      else (case get_next_available_ip s of
         Inl (ValueError m) \<Rightarrow> (Inl (ValueError m), s)
       | Inl e \<Rightarrow> (Inl e, s)
       | Inr client_ip' \<Rightarrow>
           (case add_wg_peer pubkey client_ip' s of
              (ok, s1) \<Rightarrow>
                if \<not> ok
                then (Inl (RuntimeError ''Failed to add peer to WireGuard interface''), s1)
                else (let wg_config' = generate_wg_config None pubkey client_ip'
                      in case bind_mail mail' of
                           Inl e \<Rightarrow>
                             (Inl (RuntimeError (''Failed to create user in database: ''
                                                 @ error_str e)),
                              snd (remove_wg_peer pubkey s1))
                         | Inr mail_text \<Rightarrow>
                      (case insert_user
                              \<lparr>uid = 0, peer_pubkey = pubkey, client_ip = Some client_ip',
                               nickname = nickname', mail = mail_text, phone = phone',
                               bandwidth_limit = bandwidth_limit', data_limit = data_limit',
                               expiry_date = expiry_date', status = 0, enabled = 1,
                               total_rx = 0, total_tx = 0, last_login = None,
                               user_note = note', wg_config = Some wg_config',
                               created_at = get_current_timestamp now,
                               updated_at = get_current_timestamp now\<rparr> s1 of
                           Inr (user_id', s2) \<Rightarrow> (Inr (user_id', client_ip', wg_config'), s2)
                         | Inl e \<Rightarrow>
                             (Inl (RuntimeError (''Failed to create user in database: ''
                                                 @ error_str e)),
                              snd (remove_wg_peer pubkey s1))))))))"

text \<open>The loop of \<open>delete_user\<close> over the live map: the first entry of the user goes.\<close>

fun remove_first_session :: "int \<Rightarrow> (string \<times> session) list \<Rightarrow> (string \<times> session) list" where
  "remove_first_session user_id' [] = []"
| "remove_first_session user_id' ((pubkey_session, session_data) # rest) =
     (if sess_user_id session_data = user_id' then rest
      else (pubkey_session, session_data) # remove_first_session user_id' rest)"

text \<open>\<^verbatim>\<open>DELETE FROM users WHERE id = ?\<close>, with the cascade when foreign keys are enforced.\<close>

definition delete_user_row :: "bool \<Rightarrow> int \<Rightarrow> state \<Rightarrow> state" where
  "delete_user_row foreign_keys user_id' s =
     (let s1 = s\<lparr>users := filter (\<lambda>u. uid u \<noteq> user_id') (users s)\<rparr>
      in if foreign_keys
         then s1\<lparr>events := filter (\<lambda>e. user_id e \<noteq> user_id') (events s1),
                 traffic_stats := filter (\<lambda>r. ts_user_id r \<noteq> user_id') (traffic_stats s1)\<rparr>
         else s1)"

definition delete_user :: "bool \<Rightarrow> real \<Rightarrow> int \<Rightarrow> state \<Rightarrow> (error + bool) \<times> state" where
  "delete_user foreign_keys now user_id' s =
     (case find (\<lambda>u. uid u = user_id') (users s) of
        None \<Rightarrow> (Inl (ValueError ''User not found''), s)
      | Some user \<Rightarrow>
          (let active_sessions =
                 map eid (filter (\<lambda>e. user_id e = user_id' \<and> end_time e = None) (events s));
               s1 = foldl (\<lambda>st i. close_session now i (Some 0) (Some 0) st) s active_sessions;
               s2 = s1\<lparr>user_sessions := remove_first_session user_id' (user_sessions s1)\<rparr>;
               s3 = snd (remove_wg_peer (peer_pubkey user) s2)
           in (Inr True, delete_user_row foreign_keys user_id' s3)))"

text \<open>
  The keyword arguments of \<open>update_user\<close>: for each whitelisted field, \<open>None\<close> when the
  key is absent, else the value given (which is \<open>None\<close> for a JSON null of a text field).
  The values are taken at the type of their column; a mail here is a text or null, on
  which \<open>validate_email\<close> does not raise.
\<close>

record user_update =
  upd_nickname :: "string option option"
  upd_mail :: "string option option"
  upd_phone :: "string option option"
  upd_bandwidth_limit :: "int option"
  upd_data_limit :: "int option"
  upd_expiry_date :: "text_time option option"
  upd_enabled :: "int option"
  upd_note :: "string option option"

definition no_update :: user_update where
  "no_update = \<lparr>upd_nickname = None, upd_mail = None, upd_phone = None,
     upd_bandwidth_limit = None, upd_data_limit = None, upd_expiry_date = None,
     upd_enabled = None, upd_note = None\<rparr>"

definition apply_update :: "real \<Rightarrow> user_update \<Rightarrow> user \<Rightarrow> user" where
  "apply_update now upd u =
     u\<lparr>nickname := (case upd_nickname upd of None \<Rightarrow> nickname u | Some v \<Rightarrow> v),
       mail := (case upd_mail upd of None \<Rightarrow> mail u | Some v \<Rightarrow> v),
       phone := (case upd_phone upd of None \<Rightarrow> phone u | Some v \<Rightarrow> v),
       bandwidth_limit := (case upd_bandwidth_limit upd of None \<Rightarrow> bandwidth_limit u | Some v \<Rightarrow> v),
       data_limit := (case upd_data_limit upd of None \<Rightarrow> data_limit u | Some v \<Rightarrow> v),
       expiry_date := (case upd_expiry_date upd of None \<Rightarrow> expiry_date u | Some v \<Rightarrow> v),
       enabled := (case upd_enabled upd of None \<Rightarrow> enabled u | Some v \<Rightarrow> v),
       user_note := (case upd_note upd of None \<Rightarrow> user_note u | Some v \<Rightarrow> v),
       updated_at := get_current_timestamp now\<rparr>"

text \<open>\<open>Inr False\<close> stands for the bare \<^verbatim>\<open>return\<close> when no whitelisted field is given.\<close>

definition update_user :: "real \<Rightarrow> int \<Rightarrow> user_update \<Rightarrow> state \<Rightarrow> (error + bool) \<times> state" where
  "update_user now user_id' upd s =
     (if upd = no_update then (Inr False, s)
      else if (case upd_mail upd of
                 None \<Rightarrow> False
               | Some m \<Rightarrow> truthy m \<and> validate_email (json_of_text m) = Inr False)
      then (Inl (ValueError ''Invalid email format''), s)
      else (let s1 =
                 (if upd_enabled upd = Some 0
                  then (case find (\<lambda>u. uid u = user_id') (users s) of
                          None \<Rightarrow> s
                        | Some user \<Rightarrow> snd (remove_wg_peer (peer_pubkey user) s))
                  else if upd_enabled upd = Some 1
                  then (case find (\<lambda>u. uid u = user_id') (users s) of
                          None \<Rightarrow> s
                        | Some user \<Rightarrow>
                            (case client_ip user of
                               None \<Rightarrow> s
                             | Some ip \<Rightarrow> if ip = [] then s
                                         else snd (add_wg_peer (peer_pubkey user) ip s)))
                  else s)
            in case find (\<lambda>u. uid u = user_id') (users s1) of
                 None \<Rightarrow> (Inr True, s1)
               | Some user \<Rightarrow>
                   (case check_violation (apply_update now upd user) of
                      Some e \<Rightarrow> (Inl e, s1)
                    | None \<Rightarrow>
                        (Inr True,
                         s1\<lparr>users := map (\<lambda>u. if uid u = user_id' then apply_update now upd u
                                                else u) (users s1)\<rparr>))))"

section \<open>api/api\_server.py: the mutating handlers\<close>

text \<open>
  A response is its status code and the payload of its JSON body; the message texts of
  the success bodies are left out. A handler takes its inputs parsed: the user id as an
  integer, the action as a text, the JSON object of a create request as a record whose
  absent keys are \<open>None\<close>. The mail of a create request is its JSON value as it comes
  (\<open>JNull\<close> when the key is absent, as \<^verbatim>\<open>data.get('mail')\<close> gives), because \<open>create_user\<close>
  tests and matches it before anything is stored; the key is a text, as every stored key
  is, and the other fields are taken at the type of their column.
\<close>

datatype body = ErrorBody string | SuccessBody | InfoBody | CreatedBody int string string

record create_request =
  req_peer_pubkey :: "string option"
  req_nickname :: "string option"
  req_mail :: json
  req_phone :: "string option"
  req_bandwidth_limit :: "int option"
  req_data_limit :: "int option"
  req_expiry_date :: "text_time option"
  req_note :: "string option"

definition handle_create_user_api ::
  "(string \<Rightarrow> bool) \<Rightarrow> real \<Rightarrow> create_request \<Rightarrow> state \<Rightarrow> (nat \<times> body) \<times> state" where
  "handle_create_user_api b64decode_ok now data s =
     (case req_peer_pubkey data of
        None \<Rightarrow> ((400, ErrorBody ''Missing required fields: peer_pubkey''), s)
      | Some pubkey \<Rightarrow>
          (case create_user b64decode_ok now pubkey (req_nickname data) (req_mail data)
                  (req_phone data) (case req_bandwidth_limit data of None \<Rightarrow> 0 | Some v \<Rightarrow> v)
                  (case req_data_limit data of None \<Rightarrow> 0 | Some v \<Rightarrow> v) (req_expiry_date data) (req_note data) s of
             (Inr (user_id', client_ip', wg_config'), s1) \<Rightarrow>
               ((200, CreatedBody user_id' client_ip'
                        (''/api/users/'' @ str_int user_id' @ ''/config'')), s1)
           | (Inl (ValueError m), s1) \<Rightarrow> ((400, ErrorBody m), s1)
           | (Inl (RuntimeError m), s1) \<Rightarrow> ((500, ErrorBody m), s1)
           | (Inl e, s1) \<Rightarrow> ((500, ErrorBody (''Failed to create user: '' @ error_str e)), s1)))"

definition handle_update_user_api ::
  "real \<Rightarrow> int \<Rightarrow> user_update \<Rightarrow> state \<Rightarrow> (nat \<times> body) \<times> state" where
  "handle_update_user_api now user_id' data s =
     (case update_user now user_id' data s of
        (Inr r, s1) \<Rightarrow> ((200, SuccessBody), s1)
      | (Inl (ValueError m), s1) \<Rightarrow> ((400, ErrorBody m), s1)
      | (Inl e, s1) \<Rightarrow> ((500, ErrorBody (''Failed to update user: '' @ error_str e)), s1))"

definition handle_user_action_api ::
  "real \<Rightarrow> int \<Rightarrow> string \<Rightarrow> state \<Rightarrow> (nat \<times> body) \<times> state" where
  "handle_user_action_api now user_id' action s =
     (if action = ''enable'' \<or> action = ''disable''
      then (case update_user now user_id'
                   (no_update\<lparr>upd_enabled := Some (if action = ''enable'' then 1 else 0)\<rparr>) s of
              (Inr r, s1) \<Rightarrow> ((200, SuccessBody), s1)
            | (Inl e, s1) \<Rightarrow> ((500, ErrorBody (error_str e)), s1))
      else if action = ''reset''
      then ((200, SuccessBody),
            s\<lparr>users := map (\<lambda>u. if uid u = user_id'
                                  then u\<lparr>total_rx := 0, total_tx := 0,
                                         updated_at := get_current_timestamp now\<rparr>
                                  else u) (users s)\<rparr>)
      else if action = ''kick''
      then (case find (\<lambda>(pubkey, session). sess_user_id session = user_id') (user_sessions s) of
              None \<Rightarrow> ((200, InfoBody), s)
            | Some (user_pubkey, session) \<Rightarrow>
                if user_pubkey = [] then ((200, InfoBody), s)
                else ((200, SuccessBody), handle_peer_offline now user_pubkey ''kicked'' s))
      else ((400, ErrorBody (''Unknown action: '' @ action)), s))"

text \<open>\<open>do_DELETE\<close> on \<^verbatim>\<open>/api/users/{id}\<close>, after the id has parsed.\<close>

definition do_DELETE :: "bool \<Rightarrow> real \<Rightarrow> int \<Rightarrow> state \<Rightarrow> (nat \<times> body) \<times> state" where
  "do_DELETE foreign_keys now user_id' s =
     (case delete_user foreign_keys now user_id' s of
        (Inr r, s1) \<Rightarrow> ((200, SuccessBody), s1)
      | (Inl (ValueError m), s1) \<Rightarrow> ((400, ErrorBody ''Invalid user ID''), s1)
      | (Inl e, s1) \<Rightarrow> ((500, ErrorBody (error_str e)), s1))"

section \<open>Runs\<close>

text \<open>
  The operations that change the state, each taken as one step: a tick of the monitor
  (with both clocks, the maximal handshake age and the snapshot), and the mutating
  requests of the API. A run starts from the empty store and the empty live map, on a
  given decoder and a given foreign-key setting.
\<close>

datatype operation =
    Tick real real "int option" "(string \<times> peer_info) list"
  | CreateUser real create_request
  | UpdateUser real int user_update
  | UserAction real int string
  | DeleteUser real int

fun step :: "(string \<Rightarrow> bool) \<Rightarrow> bool \<Rightarrow> state \<Rightarrow> operation \<Rightarrow> state" where
  "step b64decode_ok foreign_keys s (Tick current_time now max_handshake_age peers) =
     monitor_wireguard b64decode_ok current_time now max_handshake_age peers s"
| "step b64decode_ok foreign_keys s (CreateUser now data) =
     snd (handle_create_user_api b64decode_ok now data s)"
| "step b64decode_ok foreign_keys s (UpdateUser now user_id' data) =
     snd (handle_update_user_api now user_id' data s)"
| "step b64decode_ok foreign_keys s (UserAction now user_id' action) =
     snd (handle_user_action_api now user_id' action s)"
| "step b64decode_ok foreign_keys s (DeleteUser now user_id') =
     snd (do_DELETE foreign_keys now user_id' s)"

definition run :: "(string \<Rightarrow> bool) \<Rightarrow> bool \<Rightarrow> operation list \<Rightarrow> state" where
  "run b64decode_ok foreign_keys ops = foldl (step b64decode_ok foreign_keys) init_state ops"


section \<open>The state as the invariant sees it\<close>

text \<open>
  Three projections of the state: the (id, key) pairs of the users, the (id, user, open)
  triples of the events, where open means \<^verbatim>\<open>end_time IS NULL\<close>, and the
  (key, event, user) triples of the live map.
\<close>

definition user_rows_view :: "user list \<Rightarrow> (int \<times> string) list" where
  "user_rows_view xs = map (\<lambda>u. (uid u, peer_pubkey u)) xs"

definition event_rows_view :: "event list \<Rightarrow> (int \<times> int \<times> bool) list" where
  "event_rows_view xs = map (\<lambda>e. (eid e, user_id e, end_time e = None)) xs"

definition sessions_view :: "(string \<times> session) list \<Rightarrow> (string \<times> int \<times> int) list" where
  "sessions_view xs = map (\<lambda>(k, sd). (k, event_id sd, sess_user_id sd)) xs"

definition users_view :: "state \<Rightarrow> (int \<times> string) list" where
  "users_view s = user_rows_view (users s)"

definition events_view :: "state \<Rightarrow> (int \<times> int \<times> bool) list" where
  "events_view s = event_rows_view (events s)"

definition live_view :: "state \<Rightarrow> (string \<times> int \<times> int) list" where
  "live_view s = sessions_view (user_sessions s)"

text \<open>
  The invariant: user ids and keys are unique and bounded by their counter, event ids
  likewise, the live map has one entry per key, every live entry belongs to the stored
  user of its key, and every open event is the event of a live entry of its user.
\<close>

definition vinv ::
  "(int \<times> string) list \<Rightarrow> (int \<times> int \<times> bool) list \<Rightarrow> (string \<times> int \<times> int) list
    \<Rightarrow> int \<Rightarrow> int \<Rightarrow> bool" where
  "vinv U E L useq eseq =
     (distinct (map fst U) \<and> distinct (map snd U) \<and> (\<forall>(i, k) \<in> set U. i \<le> useq)
      \<and> distinct (map fst E) \<and> (\<forall>(j, u, opn) \<in> set E. j \<le> eseq)
      \<and> distinct (map fst L)
      \<and> (\<forall>(k, j, u) \<in> set L. (u, k) \<in> set U)
      \<and> (\<forall>(j, u, opn) \<in> set E. opn \<longrightarrow> (\<exists>k. (k, j, u) \<in> set L)))"

definition store_inv :: "state \<Rightarrow> bool" where
  "store_inv s = vinv (users_view s) (events_view s) (live_view s) (users_seq s) (events_seq s)"

text \<open>Closing the event \<open>i\<close>, on the view of the events.\<close>

definition close_in :: "int \<Rightarrow> (int \<times> int \<times> bool) list \<Rightarrow> (int \<times> int \<times> bool) list" where
  "close_in i E = map (\<lambda>(j, u, opn). (j, u, opn \<and> j \<noteq> i)) E"

section \<open>Concrete runs\<close>

text \<open>
  The closed examples use keys of 43 equal letters and one pad, which
  \<^verbatim>\<open>base64.b64decode\<close> decodes without raising, and a decoder that accepts every text.
\<close>

definition accept_all :: "string \<Rightarrow> bool" where
  "accept_all t = True"

definition example_key :: "char \<Rightarrow> string" where
  "example_key c = replicate 43 c @ ''=''"

definition example_peer :: "int \<Rightarrow> int \<Rightarrow> int \<Rightarrow> peer_info" where
  "example_peer r t h = \<lparr>rx = r, tx = t, handshake = h, endpoint = None\<rparr>"

definition example_request :: "char \<Rightarrow> string option \<Rightarrow> create_request" where
  "example_request c m = \<lparr>req_peer_pubkey = Some (example_key c), req_nickname = None,
     req_mail = json_of_text m, req_phone = None, req_bandwidth_limit = None, req_data_limit = None,
     req_expiry_date = None, req_note = None\<rparr>"

text \<open>
  A peer is seen fresh at two ticks ten seconds apart, with 2000 and 1000 more bytes at
  the second: one user, one open event with these counts, one live entry.
\<close>

definition example_open :: state where
  "example_open = run accept_all False
     [Tick 5000 10000 None [(example_key CHR ''A'', example_peer 1000 500 5000)],
      Tick 5010 10010 None [(example_key CHR ''A'', example_peer 3000 1500 5010)]]"

text \<open>Nine users created one after the other through the API.\<close>

definition example_nine_users :: state where
  "example_nine_users =
     run accept_all False (map (\<lambda>c. CreateUser 1000 (example_request c None)) ''ABCDEFGHI'')"


definition example_bad_expiry :: state where
  "example_bad_expiry = run accept_all False
     [CreateUser 1000 ((example_request CHR ''A'' None)\<lparr>req_expiry_date := Some (Other ''2020-02-30'')\<rparr>)]"

section \<open>Lists, maps and views\<close>

lemma find_map_same_key:
  assumes "\<And>x. key (g x) = key x"
  shows "find (\<lambda>x. key x = k) (map (\<lambda>x. if key x = k then g x else x) xs)
         = map_option g (find (\<lambda>x. key x = k) xs)"
  using assms by (induction xs) auto

lemma find_replaced_row:
  "P row \<Longrightarrow> find P (filter (\<lambda>r. \<not> P r) xs @ [row]) = Some row"
  by (induction xs) auto

lemma map_if_same_view:
  assumes "\<And>x. f (g x) = f x"
  shows "map f (map (\<lambda>x. if P x then g x else x) xs) = map f xs"
  using assms by (induction xs) auto



lemma user_rows_view_if [simp]:
  assumes "\<And>x. uid (g x) = uid x" and "\<And>x. peer_pubkey (g x) = peer_pubkey x"
  shows "user_rows_view (map (\<lambda>x. if P x then g x else x) xs) = user_rows_view xs"
  unfolding user_rows_view_def by (rule map_if_same_view) (simp add: assms)

lemma user_rows_view_append [simp]:
  "user_rows_view (xs @ ys) = user_rows_view xs @ user_rows_view ys"
  by (simp add: user_rows_view_def)


lemma event_rows_view_if [simp]:
  assumes "\<And>x. eid (g x) = eid x" and "\<And>x. user_id (g x) = user_id x"
    and "\<And>x. end_time (g x) = end_time x"
  shows "event_rows_view (map (\<lambda>x. if P x then g x else x) xs) = event_rows_view xs"
  unfolding event_rows_view_def by (rule map_if_same_view) (simp add: assms)

lemma event_rows_view_append [simp]:
  "event_rows_view (xs @ ys) = event_rows_view xs @ event_rows_view ys"
  by (simp add: event_rows_view_def)





lemma fst_set_sessions_view [simp]: "fst ` set (sessions_view xs) = fst ` set xs"
  by (force simp: sessions_view_def)

lemma map_fst_sessions_view [simp]: "map fst (sessions_view xs) = map fst xs"
  by (simp add: sessions_view_def comp_def split_def)




lemma view_field_updates [simp]:
  "users_view (s\<lparr>users := us\<rparr>) = user_rows_view us"
  "users_view (s\<lparr>events := es\<rparr>) = users_view s"
  "users_view (s\<lparr>traffic_stats := ts\<rparr>) = users_view s"
  "users_view (s\<lparr>system_stats := ss\<rparr>) = users_view s"
  "users_view (s\<lparr>users_seq := n\<rparr>) = users_view s"
  "users_view (s\<lparr>events_seq := n\<rparr>) = users_view s"
  "users_view (s\<lparr>user_sessions := ls\<rparr>) = users_view s"
  "users_view (s\<lparr>wg_calls := ws\<rparr>) = users_view s"
  "users_view (s\<lparr>last_stats_update := t\<rparr>) = users_view s"
  "events_view (s\<lparr>users := us\<rparr>) = events_view s"
  "events_view (s\<lparr>events := es\<rparr>) = event_rows_view es"
  "events_view (s\<lparr>traffic_stats := ts\<rparr>) = events_view s"
  "events_view (s\<lparr>system_stats := ss\<rparr>) = events_view s"
  "events_view (s\<lparr>users_seq := n\<rparr>) = events_view s"
  "events_view (s\<lparr>events_seq := n\<rparr>) = events_view s"
  "events_view (s\<lparr>user_sessions := ls\<rparr>) = events_view s"
  "events_view (s\<lparr>wg_calls := ws\<rparr>) = events_view s"
  "events_view (s\<lparr>last_stats_update := t\<rparr>) = events_view s"
  "live_view (s\<lparr>users := us\<rparr>) = live_view s"
  "live_view (s\<lparr>events := es\<rparr>) = live_view s"
  "live_view (s\<lparr>traffic_stats := ts\<rparr>) = live_view s"
  "live_view (s\<lparr>system_stats := ss\<rparr>) = live_view s"
  "live_view (s\<lparr>users_seq := n\<rparr>) = live_view s"
  "live_view (s\<lparr>events_seq := n\<rparr>) = live_view s"
  "live_view (s\<lparr>user_sessions := ls\<rparr>) = sessions_view ls"
  "live_view (s\<lparr>wg_calls := ws\<rparr>) = live_view s"
  "live_view (s\<lparr>last_stats_update := t\<rparr>) = live_view s"
  by (simp_all add: users_view_def events_view_def live_view_def)

section \<open>The invariant on views\<close>



lemma map_fst_close_in [simp]: "map fst (close_in i E) = map fst E"
  by (induction E) (auto simp: close_in_def)










section \<open>What each function leaves alone\<close>

lemma get_or_create_user_frame:
  assumes "get_or_create_user b64decode_ok now pubkey s = Inr (r, s1)"
  shows "events s1 = events s" and "user_sessions s1 = user_sessions s"
    and "traffic_stats s1 = traffic_stats s" and "system_stats s1 = system_stats s"
    and "events_seq s1 = events_seq s" and "wg_calls s1 = wg_calls s"
    and "last_stats_update s1 = last_stats_update s"
  using assms
  by (auto simp: get_or_create_user_def Let_def split: if_splits option.splits)

lemma update_user_status_frame [simp]:
  "system_stats (update_user_status now u st s) = system_stats s"
  "last_stats_update (update_user_status now u st s) = last_stats_update s"
  "user_sessions (update_user_status now u st s) = user_sessions s"
  "events (update_user_status now u st s) = events s"
  "users_seq (update_user_status now u st s) = users_seq s"
  "events_seq (update_user_status now u st s) = events_seq s"
  "users_view (update_user_status now u st s) = users_view s"
  "events_view (update_user_status now u st s) = events_view s"
  "live_view (update_user_status now u st s) = live_view s"
  by (simp_all add: update_user_status_def) (simp_all add: users_view_def)

lemma close_session_frame [simp]:
  "system_stats (close_session now i frx ftx s) = system_stats s"
  "last_stats_update (close_session now i frx ftx s) = last_stats_update s"
  "user_sessions (close_session now i frx ftx s) = user_sessions s"
  "users_seq (close_session now i frx ftx s) = users_seq s"
  "events_seq (close_session now i frx ftx s) = events_seq s"
  "live_view (close_session now i frx ftx s) = live_view s"
  by (simp_all add: close_session_def update_user_traffic_stats_def
      update_daily_traffic_stats_def Let_def live_view_def split: option.split)

lemma users_view_close_session [simp]:
  "users_view (close_session now i frx ftx s) = users_view s"
  by (simp add: close_session_def update_user_traffic_stats_def
      update_daily_traffic_stats_def Let_def split: option.split) (simp add: users_view_def)


lemma handle_peer_offline_frame [simp]:
  "system_stats (handle_peer_offline now pubkey reason s) = system_stats s"
  "last_stats_update (handle_peer_offline now pubkey reason s) = last_stats_update s"
  by (simp_all add: handle_peer_offline_def Let_def split: option.split)

lemma handle_peer_online_frame [simp]:
  "system_stats (handle_peer_online b64decode_ok now pubkey peer s) = system_stats s"
  "last_stats_update (handle_peer_online b64decode_ok now pubkey peer s) = last_stats_update s"
  by (auto simp: handle_peer_online_def update_session_traffic_def create_new_session_def
      Let_def get_or_create_user_frame split: sum.split option.split prod.split)

lemma process_peers_frame [simp]:
  "system_stats (process_peers b64decode_ok current_time now mha peers s) = system_stats s"
  "last_stats_update (process_peers b64decode_ok current_time now mha peers s) = last_stats_update s"
  by (induction peers arbitrary: s) auto

lemma foldl_offline_frame [simp]:
  "system_stats (foldl (\<lambda>st k. handle_peer_offline now k reason st) s ks) = system_stats s"
  "last_stats_update (foldl (\<lambda>st k. handle_peer_offline now k reason st) s ks) = last_stats_update s"
  by (induction ks arbitrary: s) auto

lemma monitor_peers_frame [simp]:
  "system_stats (monitor_peers b64decode_ok current_time now mha peers s) = system_stats s"
  "last_stats_update (monitor_peers b64decode_ok current_time now mha peers s) = last_stats_update s"
  by (simp_all add: monitor_peers_def Let_def)

lemma update_system_stats_heartbeat_commute:
  "update_system_stats now (s\<lparr>last_stats_update := t\<rparr>)
   = (update_system_stats now s)\<lparr>last_stats_update := t\<rparr>"
  by (simp add: update_system_stats_def Let_def)

lemma traffic_row_after_update:
  "\<exists>r. find (\<lambda>r. ts_user_id r = u \<and> ts_date r = today_of now)
           (traffic_stats (update_daily_traffic_stats now u rx' tx' n s)) = Some r
      \<and> daily_rx r = (case find (\<lambda>r. ts_user_id r = u \<and> ts_date r = today_of now)
                              (traffic_stats s) of None \<Rightarrow> 0 | Some old \<Rightarrow> daily_rx old) + rx'
      \<and> daily_tx r = (case find (\<lambda>r. ts_user_id r = u \<and> ts_date r = today_of now)
                              (traffic_stats s) of None \<Rightarrow> 0 | Some old \<Rightarrow> daily_tx old) + tx'
      \<and> session_count r = (case find (\<lambda>r. ts_user_id r = u \<and> ts_date r = today_of now)
                              (traffic_stats s) of None \<Rightarrow> 0 | Some old \<Rightarrow> session_count old) + n"
proof -
  define P where "P = (\<lambda>r::traffic_stat. ts_user_id r = u \<and> ts_date r = today_of now)"
  define old where "old = find P (traffic_stats s)"
  define row where "row = \<lparr>ts_user_id = u, ts_date = today_of now,
      daily_rx = (case old of None \<Rightarrow> 0 | Some r \<Rightarrow> daily_rx r) + rx',
      daily_tx = (case old of None \<Rightarrow> 0 | Some r \<Rightarrow> daily_tx r) + tx',
      session_count = (case old of None \<Rightarrow> 0 | Some r \<Rightarrow> session_count r) + n,
      ts_created_at = (case old of None \<Rightarrow> get_current_timestamp now | Some r \<Rightarrow> ts_created_at r),
      ts_updated_at = get_current_timestamp now\<rparr>"
  have "P row"
    by (simp add: P_def row_def)
  then have "find P (filter (\<lambda>r. \<not> P r) (traffic_stats s) @ [row]) = Some row"
    by (rule find_replaced_row)
  moreover have "traffic_stats (update_daily_traffic_stats now u rx' tx' n s)
      = filter (\<lambda>r. \<not> P r) (traffic_stats s) @ [row]"
    by (simp add: update_daily_traffic_stats_def Let_def P_def row_def old_def)
  ultimately have "find P (traffic_stats (update_daily_traffic_stats now u rx' tx' n s)) = Some row"
    by (simp only:)
  then show ?thesis
    unfolding P_def [symmetric] old_def [symmetric]
    by (intro exI [of _ row]) (simp add: row_def)
qed

lemma traffic_stats_close_session:
  "find (\<lambda>e. eid e = i) (events s) = Some e \<Longrightarrow>
   traffic_stats (close_session now i frx ftx s)
   = traffic_stats (update_daily_traffic_stats now (user_id e) (py_or frx (session_rx e))
                      (py_or ftx (session_tx e)) 1 s)"
  by (simp add: close_session_def update_user_traffic_stats_def
      update_daily_traffic_stats_def Let_def)

lemma py_int_of_float_nonneg_iff: "(0 \<le> py_int_of_float x) = (-1 < x)"
  unfolding py_int_of_float_def
  by (cases "0 \<le> x") (auto simp: le_ceiling_iff ceiling_le_iff not_le; linarith)+

section \<open>The invariant along a run\<close>

lemma inv_cong:
  assumes "users_view s' = users_view s" and "events_view s' = events_view s"
    and "live_view s' = live_view s" and "users_seq s' = users_seq s"
    and "events_seq s' = events_seq s"
  shows "store_inv s' = store_inv s"
  using assms by (simp add: store_inv_def)















lemma inv_wg_calls [simp]: "store_inv (s\<lparr>wg_calls := ws\<rparr>) = store_inv s"
  by (rule inv_cong) simp_all



lemma adapter_views [simp]:
  "users_view (snd (remove_wg_peer k s)) = users_view s"
  "events_view (snd (remove_wg_peer k s)) = events_view s"
  "live_view (snd (remove_wg_peer k s)) = live_view s"
  "users_seq (snd (remove_wg_peer k s)) = users_seq s"
  "events_seq (snd (remove_wg_peer k s)) = events_seq s"
  "users_view (snd (add_wg_peer k ip s)) = users_view s"
  "events_view (snd (add_wg_peer k ip s)) = events_view s"
  "live_view (snd (add_wg_peer k ip s)) = live_view s"
  "users_seq (snd (add_wg_peer k ip s)) = users_seq s"
  "events_seq (snd (add_wg_peer k ip s)) = events_seq s"
  by (simp_all add: remove_wg_peer_def add_wg_peer_def)

















section \<open>The claims\<close>



text \<open>
  C2. An update of a live session (the key resolves to an enabled user and has a live
  entry): when the current rx is below \<open>start_rx\<close> or the current tx below \<open>start_tx\<close>,
  both baselines become the current values and the event row gets
  \<open>session_rx = session_tx = 0\<close>; otherwise the row gets the two differences and the
  baselines stay. The values written are never negative.
\<close>

theorem handle_peer_online_update:
  assumes resolved: "get_or_create_user b64decode_ok now pubkey s
                       = Inr ((user_id', nickname', enabled'), s1)"
    and enabled: "enabled' \<noteq> 0"
    and live: "map_of (user_sessions s) pubkey = Some session"
    and row: "find (\<lambda>e. eid e = event_id session) (events s) = Some e"
  shows "\<exists>e' session'.
      find (\<lambda>e. eid e = event_id session)
        (events (handle_peer_online b64decode_ok now pubkey peer s)) = Some e'
    \<and> map_of (user_sessions (handle_peer_online b64decode_ok now pubkey peer s)) pubkey
        = Some session'
    \<and> (if rx peer < start_rx session \<or> tx peer < start_tx session
        then session_rx e' = 0 \<and> session_tx e' = 0
           \<and> start_rx session' = rx peer \<and> start_tx session' = tx peer
        else session_rx e' = rx peer - start_rx session
           \<and> session_tx e' = tx peer - start_tx session
           \<and> start_rx session' = start_rx session \<and> start_tx session' = start_tx session)
    \<and> 0 \<le> session_rx e' \<and> 0 \<le> session_tx e'"
proof -
  have live1: "map_of (user_sessions s1) pubkey = Some session"
    using live get_or_create_user_frame(2) [OF resolved] by simp
  have row1: "find (\<lambda>e. eid e = event_id session) (events s1) = Some e"
    using row get_or_create_user_frame(1) [OF resolved] by simp
  show ?thesis
  proof (cases "rx peer < start_rx session \<or> tx peer < start_tx session")
    case True
    then show ?thesis
      using resolved enabled live1 row1
      by (simp add: handle_peer_online_def update_session_traffic_def Let_def
          find_map_same_key update_conv')
  next
    case False
    then show ?thesis
      using resolved enabled live1 row1
      by (simp add: handle_peer_online_def update_session_traffic_def Let_def
          find_map_same_key update_conv')
  qed
qed

theorem handle_peer_online_update_witness:
  "\<exists>e' session'.
      find (\<lambda>e. eid e = 1)
        (events (handle_peer_online accept_all 10020 (example_key CHR ''A'')
                   (example_peer 200 200 5020) example_open)) = Some e'
    \<and> map_of (user_sessions (handle_peer_online accept_all 10020 (example_key CHR ''A'')
                   (example_peer 200 200 5020) example_open)) (example_key CHR ''A'')
        = Some session'
    \<and> session_rx e' = 0 \<and> session_tx e' = 0
    \<and> start_rx session' = 200 \<and> start_tx session' = 200
    \<and> 0 \<le> session_rx e' \<and> 0 \<le> session_tx e'"
proof -
  have resolved: "get_or_create_user accept_all 10020 (example_key CHR ''A'') example_open
      = Inr ((1, ''User_1'', 1), example_open)"
    by code_simp
  have enabled: "(1::int) \<noteq> 0"
    by simp
  have live: "map_of (user_sessions example_open) (example_key CHR ''A'')
      = Some \<lparr>event_id = 1, start_rx = 1000, start_tx = 500, last_handshake = 5010,
               sess_user_id = 1, sess_nickname = ''User_1''\<rparr>"
    by code_simp
  have row: "find (\<lambda>e. eid e = event_id \<lparr>event_id = 1, start_rx = 1000, start_tx = 500,
                 last_handshake = 5010, sess_user_id = 1, sess_nickname = ''User_1''\<rparr>)
               (events example_open)
      = Some \<lparr>eid = 1, user_id = 1, start_time = Stamp 10000, end_time = None,
               last_update = Stamp 10010, session_rx = 2000, session_tx = 1000,
               login_ip = None, endpoint_info = None, ev_status = ONLINE,
               duration_seconds = 0\<rparr>"
    by code_simp
  show ?thesis
    using handle_peer_online_update [OF resolved enabled live row, of "example_peer 200 200 5020"]
    by (simp add: example_peer_def)
qed

text \<open>
  C3 (as amended). When \<open>close_session\<close> closes an event row, the duration it stores is
  the close time minus the start time truncated toward zero to whole seconds, and 0 when
  the start time does not parse. Nothing clamps it: it is non-negative exactly when the
  start time lies less than one second after the close time.
\<close>

theorem close_session_duration:
  assumes "find (\<lambda>e. eid e = i) (events s) = Some e"
  shows "\<exists>e'. find (\<lambda>e. eid e = i) (events (close_session now i final_rx final_tx s)) = Some e'
      \<and> end_time e' = Some (get_current_timestamp now) \<and> ev_status e' = OFFLINE
      \<and> duration_seconds e'
          = (case start_time e of
               Stamp start \<Rightarrow> (if of_int start \<le> now then \<lfloor>now - of_int start\<rfloor>
                               else \<lceil>now - of_int start\<rceil>)
             | Other t \<Rightarrow> 0)
      \<and> (0 \<le> duration_seconds e')
          = (case start_time e of Stamp start \<Rightarrow> of_int start < now + 1 | Other t \<Rightarrow> True)"
proof (cases "start_time e")
  case (Stamp start)
  have "(0 \<le> py_int_of_float (now - of_int start)) = (of_int start < now + 1)"
    by (auto simp: py_int_of_float_nonneg_iff)
  then show ?thesis
    using assms Stamp
    by (simp add: close_session_def update_user_traffic_stats_def
        update_daily_traffic_stats_def Let_def find_map_same_key)
      (simp add: py_int_of_float_def)
next
  case (Other t)
  then show ?thesis
    using assms
    by (simp add: close_session_def update_user_traffic_stats_def
        update_daily_traffic_stats_def Let_def find_map_same_key)
qed

theorem close_session_duration_witness:
  "\<exists>e'. find (\<lambda>e. eid e = 1) (events (close_session 10200 1 None None example_open)) = Some e'
      \<and> end_time e' = Some (Stamp 10200) \<and> ev_status e' = OFFLINE
      \<and> duration_seconds e' = 200"
proof -
  have row: "find (\<lambda>e. eid e = 1) (events example_open)
      = Some \<lparr>eid = 1, user_id = 1, start_time = Stamp 10000, end_time = None,
               last_update = Stamp 10010, session_rx = 2000, session_tx = 1000,
               login_ip = None, endpoint_info = None, ev_status = ONLINE,
               duration_seconds = 0\<rparr>"
    by code_simp
  show ?thesis
    using close_session_duration [OF row, of 10200 None None]
    by (auto simp: get_current_timestamp_def)
qed

text \<open>
  C3 as stated fails: a session opened at wall-clock second 10000 and closed by the next
  tick, after the local clock was set back one hour, is stored with the duration -3570.
\<close>

theorem close_session_negative_duration:
  "map start_time (events (run accept_all False
      [Tick 5000 10000 None [(example_key CHR ''A'', example_peer 1000 500 5000)],
       Tick 5030 6430 None []])) = [Stamp 10000]
   \<and> map end_time (events (run accept_all False
      [Tick 5000 10000 None [(example_key CHR ''A'', example_peer 1000 500 5000)],
       Tick 5030 6430 None []])) = [Some (Stamp 6430)]
   \<and> map duration_seconds (events (run accept_all False
      [Tick 5000 10000 None [(example_key CHR ''A'', example_peer 1000 500 5000)],
       Tick 5030 6430 None []])) = [- 3570]"
  by code_simp

text \<open>
  C4. The claim asks for an address that is not assigned yet, built from the largest
  last octet. The code sorts the addresses as texts: with 10.0.0.2 to 10.0.0.10 assigned
  (nine users created in a row), the last text is 10.0.0.9, and the function returns
  10.0.0.10 again; the tenth create then breaks the UNIQUE constraint of \<open>client_ip\<close>.
\<close>

theorem get_next_available_ip_duplicate:
  "assigned_ips example_nine_users
     = [''10.0.0.2'', ''10.0.0.3'', ''10.0.0.4'', ''10.0.0.5'', ''10.0.0.6'', ''10.0.0.7'',
        ''10.0.0.8'', ''10.0.0.9'', ''10.0.0.10'']
   \<and> get_next_available_ip example_nine_users = Inr ''10.0.0.10''
   \<and> fst (handle_create_user_api accept_all 1010 (example_request CHR ''J'' None)
             example_nine_users)
       = (500, ErrorBody
            ''Failed to create user in database: UNIQUE constraint failed: users.client_ip'')"
  by code_simp

text \<open>
  C5. \<open>is_peer_online\<close> is true iff the handshake is not 0 and the clock minus the
  handshake is at most the maximal age, which is 180 when none is given; a handshake of 0
  is offline for every maximal age.
\<close>

theorem is_peer_online_iff:
  "is_peer_online current_time handshake_time max_handshake_age =
     (handshake_time \<noteq> 0 \<and>
      current_time - of_int handshake_time
        \<le> of_int (case max_handshake_age of None \<Rightarrow> 180 | Some a \<Rightarrow> a))
   \<and> is_peer_online current_time 0 max_handshake_age = False"
  by (simp add: is_peer_online_def MAX_HANDSHAKE_AGE_def Let_def split: option.split)

theorem is_peer_online_iff_witness:
  "is_peer_online 1180 1000 None = True \<and> is_peer_online 1181 1000 None = False
   \<and> is_peer_online 1000 0 (Some 5000) = False \<and> is_peer_online 1010 1000 (Some 10) = True"
  using is_peer_online_iff [of 1180 1000 None] is_peer_online_iff [of 1181 1000 None]
    is_peer_online_iff [of 1000 0 "Some 5000"] is_peer_online_iff [of 1010 1000 "Some 10"]
  by simp




text \<open>
  C7 (as amended). On a tick at which more than 300 seconds have passed since the last
  heartbeat (0 before the first), the tick runs \<open>update_system_stats\<close> on the state the
  peers left and records the tick's time as the new heartbeat; on a tick at which 300
  seconds or fewer have passed, exactly 300 included, the roll-up does not run:
  \<open>system_stats\<close> and the heartbeat stay as they were.
\<close>

theorem monitor_wireguard_heartbeat:
  "(300 < current_time - (case last_stats_update s of None \<Rightarrow> 0 | Some t \<Rightarrow> t) \<longrightarrow>
      monitor_wireguard b64decode_ok current_time now mha peers s
        = (update_system_stats now (monitor_peers b64decode_ok current_time now mha peers s))
            \<lparr>last_stats_update := Some current_time\<rparr>)
   \<and> (current_time - (case last_stats_update s of None \<Rightarrow> 0 | Some t \<Rightarrow> t) \<le> 300 \<longrightarrow>
      monitor_wireguard b64decode_ok current_time now mha peers s
        = (monitor_peers b64decode_ok current_time now mha peers s)
            \<lparr>last_stats_update := Some (case last_stats_update s of None \<Rightarrow> 0 | Some t \<Rightarrow> t)\<rparr>
      \<and> system_stats (monitor_wireguard b64decode_ok current_time now mha peers s)
          = system_stats s)"
  by (simp add: monitor_wireguard_def Let_def update_system_stats_heartbeat_commute)

theorem monitor_wireguard_heartbeat_witness:
  "monitor_wireguard accept_all 5311 10311 None [] example_open
     = (update_system_stats 10311 (monitor_peers accept_all 5311 10311 None [] example_open))
         \<lparr>last_stats_update := Some 5311\<rparr>
   \<and> system_stats (monitor_wireguard accept_all 5299 10299 None [] example_open)
       = system_stats example_open
   \<and> last_stats_update (monitor_wireguard accept_all 5299 10299 None [] example_open)
       = Some 5000"
proof -
  have last: "last_stats_update example_open = Some 5000"
    by code_simp
  show ?thesis
    using monitor_wireguard_heartbeat [of 5311 example_open accept_all 10311 None "[]"]
      monitor_wireguard_heartbeat [of 5299 example_open accept_all 10299 None "[]"] last
    by simp
qed

text \<open>
  C7 as stated fails: the first tick, at 1000, sets the heartbeat; the tick exactly 300
  seconds later leaves \<open>system_stats\<close> and the heartbeat alone, though the roll-up would
  have replaced today's row.
\<close>

theorem heartbeat_at_300_not_invoked:
  "last_stats_update (monitor_wireguard accept_all 1000 86000 None [] init_state) = Some 1000
   \<and> (1300::real) - 1000 = 300
   \<and> last_stats_update (monitor_wireguard accept_all 1300 86300 None []
        (monitor_wireguard accept_all 1000 86000 None [] init_state)) = Some 1000
   \<and> system_stats (monitor_wireguard accept_all 1300 86300 None []
        (monitor_wireguard accept_all 1000 86000 None [] init_state))
       = system_stats (monitor_wireguard accept_all 1000 86000 None [] init_state)
   \<and> system_stats (update_system_stats 86300
        (monitor_wireguard accept_all 1000 86000 None [] init_state))
       \<noteq> system_stats (monitor_wireguard accept_all 1000 86000 None [] init_state)"
  by code_simp

text \<open>
  C8. For a key with no live entry, \<open>handle_peer_offline\<close> returns the state as it was,
  whatever the reason: neither the live map nor a store row changes. A second close of
  the same key therefore changes nothing after the first.
\<close>

theorem handle_peer_offline_absent_noop:
  "(pubkey \<notin> set (map fst (user_sessions s)) \<longrightarrow> handle_peer_offline now pubkey reason s = s)
   \<and> handle_peer_offline now2 pubkey reason2 (handle_peer_offline now pubkey reason s)
       = handle_peer_offline now pubkey reason s"
proof
  show "pubkey \<notin> set (map fst (user_sessions s)) \<longrightarrow> handle_peer_offline now pubkey reason s = s"
    by (simp add: handle_peer_offline_def map_of_eq_None_iff [symmetric])
next
  have gone: "map_of (user_sessions (handle_peer_offline now pubkey reason s)) pubkey = None"
    by (simp add: handle_peer_offline_def Let_def delete_conv' split: option.split)
  then show "handle_peer_offline now2 pubkey reason2 (handle_peer_offline now pubkey reason s)
       = handle_peer_offline now pubkey reason s"
    by (simp add: handle_peer_offline_def [of now2])
qed

theorem handle_peer_offline_absent_noop_witness:
  "handle_peer_offline 10020 (example_key CHR ''B'') ''kicked'' example_open = example_open
   \<and> handle_peer_offline 10030 (example_key CHR ''A'') ''kicked''
        (handle_peer_offline 10020 (example_key CHR ''A'') ''disappeared'' example_open)
       = handle_peer_offline 10020 (example_key CHR ''A'') ''disappeared'' example_open
   \<and> user_sessions (handle_peer_offline 10020 (example_key CHR ''A'') ''disappeared''
        example_open) = []"
proof -
  have absent: "example_key CHR ''B'' \<notin> set (map fst (user_sessions example_open))"
    by code_simp
  have emptied: "user_sessions (handle_peer_offline 10020 (example_key CHR ''A'')
      ''disappeared'' example_open) = []"
    by code_simp
  show ?thesis
    using handle_peer_offline_absent_noop [of "example_key CHR ''B''" example_open 10020 "''kicked''"]
      handle_peer_offline_absent_noop [of "example_key CHR ''A''" example_open 10020
        "''disappeared''" 10030 "''kicked''"] absent emptied
    by simp
qed

text \<open>
  C9. \<open>close_session\<close> with final counts 0 and 0, as \<open>delete_user\<close> calls it, does what
  it does with no final counts: the session\_rx and session\_tx stored in the event row
  are added to the user's lifetime totals and to today's traffic row, and they stay in
  the closed event row; a final count of 0 never replaces a stored count.
\<close>

theorem close_session_zero_final:
  assumes "find (\<lambda>e. eid e = i) (events s) = Some e"
  shows "close_session now i (Some 0) (Some 0) s = close_session now i None None s
    \<and> users (close_session now i (Some 0) (Some 0) s)
        = map (\<lambda>u. if uid u = user_id e
                    then u\<lparr>total_rx := total_rx u + session_rx e,
                           total_tx := total_tx u + session_tx e,
                           last_login := Some (get_current_timestamp now),
                           updated_at := get_current_timestamp now\<rparr>
                    else u) (users s)
    \<and> (\<exists>r. find (\<lambda>r. ts_user_id r = user_id e \<and> ts_date r = today_of now)
               (traffic_stats (close_session now i (Some 0) (Some 0) s)) = Some r
          \<and> daily_rx r = (case find (\<lambda>r. ts_user_id r = user_id e \<and> ts_date r = today_of now)
                                  (traffic_stats s) of None \<Rightarrow> 0 | Some old \<Rightarrow> daily_rx old)
                           + session_rx e
          \<and> daily_tx r = (case find (\<lambda>r. ts_user_id r = user_id e \<and> ts_date r = today_of now)
                                  (traffic_stats s) of None \<Rightarrow> 0 | Some old \<Rightarrow> daily_tx old)
                           + session_tx e)
    \<and> (\<exists>e'. find (\<lambda>e. eid e = i) (events (close_session now i (Some 0) (Some 0) s)) = Some e'
          \<and> session_rx e' = session_rx e \<and> session_tx e' = session_tx e
          \<and> end_time e' = Some (get_current_timestamp now) \<and> ev_status e' = OFFLINE)"
proof (intro conjI)
  show "close_session now i (Some 0) (Some 0) s = close_session now i None None s"
    by (simp add: close_session_def Let_def split: option.split)
  show "users (close_session now i (Some 0) (Some 0) s)
        = map (\<lambda>u. if uid u = user_id e
                    then u\<lparr>total_rx := total_rx u + session_rx e,
                           total_tx := total_tx u + session_tx e,
                           last_login := Some (get_current_timestamp now),
                           updated_at := get_current_timestamp now\<rparr>
                    else u) (users s)"
    using assms
    by (simp add: close_session_def update_user_traffic_stats_def
        update_daily_traffic_stats_def Let_def)
  show "\<exists>r. find (\<lambda>r. ts_user_id r = user_id e \<and> ts_date r = today_of now)
               (traffic_stats (close_session now i (Some 0) (Some 0) s)) = Some r
          \<and> daily_rx r = (case find (\<lambda>r. ts_user_id r = user_id e \<and> ts_date r = today_of now)
                                  (traffic_stats s) of None \<Rightarrow> 0 | Some old \<Rightarrow> daily_rx old)
                           + session_rx e
          \<and> daily_tx r = (case find (\<lambda>r. ts_user_id r = user_id e \<and> ts_date r = today_of now)
                                  (traffic_stats s) of None \<Rightarrow> 0 | Some old \<Rightarrow> daily_tx old)
                           + session_tx e"
    using traffic_row_after_update [of "user_id e" now "session_rx e" "session_tx e" 1 s]
    by (auto simp add: traffic_stats_close_session [OF assms])
  show "\<exists>e'. find (\<lambda>e. eid e = i) (events (close_session now i (Some 0) (Some 0) s)) = Some e'
          \<and> session_rx e' = session_rx e \<and> session_tx e' = session_tx e
          \<and> end_time e' = Some (get_current_timestamp now) \<and> ev_status e' = OFFLINE"
    using assms
    by (simp add: close_session_def update_user_traffic_stats_def
        update_daily_traffic_stats_def Let_def find_map_same_key)
qed

theorem close_session_zero_final_witness:
  "close_session 10020 1 (Some 0) (Some 0) example_open
     = close_session 10020 1 None None example_open
   \<and> map total_rx (users (close_session 10020 1 (Some 0) (Some 0) example_open)) = [2000]
   \<and> map total_tx (users (close_session 10020 1 (Some 0) (Some 0) example_open)) = [1000]
   \<and> map daily_rx (traffic_stats (close_session 10020 1 (Some 0) (Some 0) example_open)) = [2000]
   \<and> map session_rx (events (snd (delete_user False 10020 1 example_open))) = [2000]
   \<and> map session_tx (events (snd (delete_user False 10020 1 example_open))) = [1000]"
proof -
  have row: "find (\<lambda>e. eid e = 1) (events example_open)
      = Some \<lparr>eid = 1, user_id = 1, start_time = Stamp 10000, end_time = None,
               last_update = Stamp 10010, session_rx = 2000, session_tx = 1000,
               login_ip = None, endpoint_info = None, ev_status = ONLINE,
               duration_seconds = 0\<rparr>"
    by code_simp
  have before: "map total_rx (users example_open) = [0]" "map total_tx (users example_open) = [0]"
    "map uid (users example_open) = [1]"
    by code_simp+
  have rest: "map daily_rx (traffic_stats (close_session 10020 1 (Some 0) (Some 0) example_open))
      = [2000]"
    "map session_rx (events (snd (delete_user False 10020 1 example_open))) = [2000]"
    "map session_tx (events (snd (delete_user False 10020 1 example_open))) = [1000]"
    by code_simp+
  note t = close_session_zero_final [OF row, of 10020]
  from t have same: "close_session 10020 1 (Some 0) (Some 0) example_open
     = close_session 10020 1 None None example_open"
    by (rule conjunct1)
  from t [THEN conjunct2, THEN conjunct1] have users': "users (close_session 10020 1 (Some 0) (Some 0) example_open)
      = map (\<lambda>u. if uid u = 1
                  then u\<lparr>total_rx := total_rx u + 2000, total_tx := total_tx u + 1000,
                         last_login := Some (get_current_timestamp 10020),
                         updated_at := get_current_timestamp 10020\<rparr>
                  else u) (users example_open)"
    by simp
  obtain u where u: "users example_open = [u]"
    using before(3) by auto
  with before have "uid u = 1" "total_rx u = 0" "total_tx u = 0"
    by simp_all
  with users' u have "map total_rx (users (close_session 10020 1 (Some 0) (Some 0) example_open))
      = [2000]"
    "map total_tx (users (close_session 10020 1 (Some 0) (Some 0) example_open)) = [1000]"
    by simp_all
  with same rest show ?thesis
    by simp
qed

text \<open>
  C10. For an existing user whose \<open>expiry_date\<close> is set to a text that does not parse as
  a timestamp, \<open>get_or_create_user\<close> passes over the parse failure: it returns the stored
  enabled flag and leaves the store as it was, whatever the clock says.
\<close>

theorem get_or_create_user_unparsable_expiry:
  assumes "validate_pubkey b64decode_ok pubkey"
    and "find (\<lambda>u. peer_pubkey u = pubkey) (users s) = Some u"
    and "expiry_date u = Some (Other t)"
  shows "get_or_create_user b64decode_ok now pubkey s
         = Inr ((uid u, nickname_or_default u, enabled u), s)"
  using assms by (simp add: get_or_create_user_def)

theorem get_or_create_user_unparsable_expiry_witness:
  "get_or_create_user accept_all 99999999999 (example_key CHR ''A'') example_bad_expiry
   = Inr ((1, ''User_1'', 1), example_bad_expiry)"
proof -
  have shape: "validate_pubkey accept_all (example_key CHR ''A'')"
    by code_simp
  have stored: "find (\<lambda>u. peer_pubkey u = example_key CHR ''A'') (users example_bad_expiry)
      = Some (hd (users example_bad_expiry))"
    by code_simp
  have expiry: "expiry_date (hd (users example_bad_expiry)) = Some (Other ''2020-02-30'')"
    by code_simp
  have row: "uid (hd (users example_bad_expiry)) = 1"
    "nickname_or_default (hd (users example_bad_expiry)) = ''User_1''"
    "enabled (hd (users example_bad_expiry)) = 1"
    by code_simp+
  show ?thesis
    using get_or_create_user_unparsable_expiry [OF shape stored expiry, of 99999999999] row
    by simp
qed

end
